theory Spec2Isabelle
  imports Main "HOL-Library.Char_ord" "HOL-Library.List_Lexorder" "HOL-Library.Multiset"
begin

section \<open>Python strings and sets\<close>

text \<open>
  A Python \<^verbatim>\<open>str\<close> is modelled by \<^typ>\<open>string\<close>; a \<^typ>\<open>char\<close> stands for the code
  point of the same number, so the model covers the texts whose code points are below 256.
  Comparison of strings is Python's: lexicographic on code points, a proper prefix being
  smaller (the order of \<^theory_text>\<open>List_Lexorder\<close> over \<^theory_text>\<open>Char_ord\<close>).
\<close>

datatype py_error = IndexError

text \<open>\<^verbatim>\<open>xs[i]\<close> for an index \<open>i \<ge> 0\<close>: raises outside the list.\<close>

definition py_index :: "'a list \<Rightarrow> nat \<Rightarrow> py_error + 'a" where
  "py_index xs i = (if i < length xs then Inr (xs ! i) else Inl IndexError)"

text \<open>
  \<^verbatim>\<open>str.isspace\<close> on one character. Below 256 the white space of Python is
  U+0009..U+000D, U+001C..U+0020, U+0085 and U+00A0.
\<close>

definition py_isspace :: "char \<Rightarrow> bool" where
  "py_isspace c = (let n = (of_char c :: nat) in
     (9 \<le> n \<and> n \<le> 13) \<or> (28 \<le> n \<and> n \<le> 32) \<or> n = 133 \<or> n = 160)"

text \<open>\<^verbatim>\<open>s.strip()\<close>\<close>

definition strip :: "string \<Rightarrow> string" where
  "strip s = rev (dropWhile py_isspace (rev (dropWhile py_isspace s)))"

text \<open>\<^verbatim>\<open>s.startswith(p)\<close> and \<^verbatim>\<open>s.endswith(p)\<close>\<close>

definition startswith :: "string \<Rightarrow> string \<Rightarrow> bool" where
  "startswith s p = (take (length p) s = p)"

definition endswith :: "string \<Rightarrow> string \<Rightarrow> bool" where
  "endswith s p = (length p \<le> length s \<and> drop (length s - length p) s = p)"

text \<open>\<^verbatim>\<open>s.split(c)\<close> for a one-character separator: every occurrence splits.\<close>

fun split_acc :: "char \<Rightarrow> string \<Rightarrow> string \<Rightarrow> string list" where
  "split_acc c acc [] = [rev acc]"
| "split_acc c acc (x # xs) =
     (if x = c then rev acc # split_acc c [] xs else split_acc c (x # acc) xs)"

definition split :: "string \<Rightarrow> char \<Rightarrow> string list" where
  "split s c = split_acc c [] s"

text \<open>\<^verbatim>\<open>s.split(c, 1)\<close>: only the first occurrence splits.\<close>

definition split1 :: "string \<Rightarrow> char \<Rightarrow> string list" where
  "split1 s c =
     (if c \<in> set s then [takeWhile (\<lambda>x. x \<noteq> c) s, tl (dropWhile (\<lambda>x. x \<noteq> c) s)] else [s])"

text \<open>
  \<^verbatim>\<open>s.lower()\<close>. Below 256 the letters with a lower-case form are A..Z and
  U+00C0..U+00DE without U+00D7; the form is 32 code points higher.
\<close>

definition lower_char :: "char \<Rightarrow> char" where
  "lower_char c = (let n = (of_char c :: nat) in
     if (65 \<le> n \<and> n \<le> 90) \<or> (192 \<le> n \<and> n \<le> 222 \<and> n \<noteq> 215)
     then char_of (n + 32) else c)"

definition lower :: "string \<Rightarrow> string" where
  "lower s = map lower_char s"

text \<open>
  \<^verbatim>\<open>s.upper()\<close>. Below 256 the letters with an upper-case form 32 code points lower are
  a..z and U+00E0..U+00FE without U+00F7. The upper-case forms of U+00B5, U+00DF and
  U+00FF lie outside the range of \<^typ>\<open>char\<close> (or are two letters); the model leaves these
  three unchanged. None of them is an ASCII letter before or after, so a comparison of the
  result with an ASCII word such as \<^verbatim>\<open>DOMAIN\<close> is not affected.
\<close>

definition upper_char :: "char \<Rightarrow> char" where
  "upper_char c = (let n = (of_char c :: nat) in
     if (97 \<le> n \<and> n \<le> 122) \<or> (224 \<le> n \<and> n \<le> 254 \<and> n \<noteq> 247)
     then char_of (n - 32) else c)"

definition upper :: "string \<Rightarrow> string" where
  "upper s = map upper_char s"

text \<open>
  A Python \<^verbatim>\<open>set\<close> of strings is modelled by the list of its members, each once. The
  order of the list stands for the order in which Python would iterate over the set, which
  the language leaves open; statements about sets are therefore made through \<^const>\<open>set\<close>
  or for every order.
\<close>

type_synonym pyset = "string list"

text \<open>\<^verbatim>\<open>s.add(x)\<close>\<close>

definition set_add :: "string \<Rightarrow> pyset \<Rightarrow> pyset" where
  "set_add x s = (if x \<in> set s then s else s @ [x])"

text \<open>\<^verbatim>\<open>s.update(t)\<close>\<close>

definition set_update :: "pyset \<Rightarrow> string list \<Rightarrow> pyset" where
  "set_update s t = fold set_add t s"


section \<open>domain\_merge\_optimizer.py\<close>

subsection \<open>parse\_list\_file\<close>

text \<open>
  The argument is the list of lines the file yields. The whole loop of the source sits in
  one \<^verbatim>\<open>try\<close> whose handler prints and falls through to the \<^verbatim>\<open>return\<close>: an exception
  raised by a line ends the loop and the two sets are returned as they are.
\<close>

fun parse_loop :: "string list \<Rightarrow> pyset \<times> pyset \<Rightarrow> pyset \<times> pyset" where
  "parse_loop [] (domains, domain_suffixes) = (domains, domain_suffixes)"
| "parse_loop (raw # rest) (domains, domain_suffixes) =
     (let line = strip raw in
      if line = [] \<or> startswith line ''#'' then parse_loop rest (domains, domain_suffixes)
      else if startswith line ''DOMAIN,'' then
        (case py_index (split1 line CHR '','') 1 of
           Inl e \<Rightarrow> (domains, domain_suffixes)
         | Inr v \<Rightarrow>
             (let domain = strip v in
              if domain \<noteq> [] then parse_loop rest (set_add domain domains, domain_suffixes)
              else parse_loop rest (domains, domain_suffixes)))
      else if startswith line ''DOMAIN-SUFFIX,'' then
        (case py_index (split1 line CHR '','') 1 of
           Inl e \<Rightarrow> (domains, domain_suffixes)
         | Inr v \<Rightarrow>
             (let suffix = strip v in
              if suffix \<noteq> [] then parse_loop rest (domains, set_add suffix domain_suffixes)
              else parse_loop rest (domains, domain_suffixes)))
      else parse_loop rest (domains, domain_suffixes))"

definition parse_list_file :: "string list \<Rightarrow> pyset \<times> pyset" where
  "parse_list_file file_lines = parse_loop file_lines ([], [])"

subsection \<open>is\_subdomain\_of and optimize\_domains\<close>

definition is_subdomain_of :: "string \<Rightarrow> string \<Rightarrow> bool" where
  "is_subdomain_of domain suffix =
     (if domain = suffix then False
      else if endswith domain (CHR ''.'' # suffix) then True
      else False)"

text \<open>
  The inner loop of \<^verbatim>\<open>optimize_domains\<close>: it leaves at the first suffix that covers the
  domain, counting the removal. The result is \<^verbatim>\<open>(is_covered, removed_count)\<close>.
\<close>

fun covered_loop :: "string \<Rightarrow> string list \<Rightarrow> nat \<Rightarrow> bool \<times> nat" where
  "covered_loop domain [] removed_count = (False, removed_count)"
| "covered_loop domain (suffix # rest) removed_count =
     (if is_subdomain_of domain suffix then (True, removed_count + 1)
      else covered_loop domain rest removed_count)"

text \<open>The outer loop, over the domains in the order the set yields them.\<close>

fun optimize_loop :: "string list \<Rightarrow> string list \<Rightarrow> pyset \<times> nat \<Rightarrow> pyset \<times> nat" where
  "optimize_loop [] domain_suffixes (optimized, removed_count) = (optimized, removed_count)"
| "optimize_loop (domain # rest) domain_suffixes (optimized, removed_count) =
     (case covered_loop domain domain_suffixes removed_count of
        (is_covered, removed_count') \<Rightarrow>
          if \<not> is_covered
          then optimize_loop rest domain_suffixes (set_add domain optimized, removed_count')
          else optimize_loop rest domain_suffixes (optimized, removed_count'))"

definition optimize_domains :: "pyset \<Rightarrow> pyset \<Rightarrow> pyset" where
  "optimize_domains all_domains domain_suffixes =
     fst (optimize_loop all_domains domain_suffixes ([], 0))"

text \<open>The number the function prints when it has removed something.\<close>

definition optimize_removed_count :: "pyset \<Rightarrow> pyset \<Rightarrow> nat" where
  "optimize_removed_count all_domains domain_suffixes =
     snd (optimize_loop all_domains domain_suffixes ([], 0))"

subsection \<open>load\_existing\_domains and save\_domains\<close>

fun load_loop :: "string list \<Rightarrow> pyset \<Rightarrow> pyset" where
  "load_loop [] domains = domains"
| "load_loop (raw # rest) domains =
     (let line = strip raw in
      if line \<noteq> [] \<and> \<not> startswith line ''#'' then load_loop rest (set_add line domains)
      else load_loop rest domains)"

text \<open>\<open>None\<close> is the file that does not exist: the empty set is returned.\<close>

definition load_existing_domains :: "string list option \<Rightarrow> pyset" where
  "load_existing_domains file =
     (case file of None \<Rightarrow> [] | Some file_lines \<Rightarrow> load_loop file_lines [])"

text \<open>
  \<^verbatim>\<open>sorted(domains, key=lambda x: x.lower())\<close> is a stable sort on the keys, as
  \<^const>\<open>sort_key\<close> is. The file written holds the concatenation of the strings passed to
  \<^verbatim>\<open>f.write\<close>.
\<close>

definition sorted_domains :: "pyset \<Rightarrow> string list" where
  "sorted_domains domains = sort_key lower domains"

definition save_domains :: "pyset \<Rightarrow> string" where
  "save_domains domains = concat (map (\<lambda>domain. domain @ [CHR 0x0A]) (sorted_domains domains))"

subsection \<open>main, steps 3 to 7\<close>

record main_vars =
  all_domains :: pyset
  all_suffixes :: pyset
  existing_domains :: pyset
  optimized_domains :: pyset
  output_file :: string

text \<open>Step 3: every loaded file is parsed and its two sets are added to the totals.\<close>

fun parse_files :: "string list list \<Rightarrow> pyset \<times> pyset \<Rightarrow> pyset \<times> pyset" where
  "parse_files [] (all_d, all_s) = (all_d, all_s)"
| "parse_files (file # rest) (all_d, all_s) =
     (case parse_list_file file of
        (domains, suffixes) \<Rightarrow> parse_files rest (set_update all_d domains, set_update all_s suffixes))"

text \<open>Step 5: the existing domains and the suffixes are added to the set of domains.\<close>

definition merge_step :: "main_vars \<Rightarrow> main_vars" where
  "merge_step v =
     v\<lparr>all_domains := set_update (set_update (all_domains v) (existing_domains v)) (all_suffixes v)\<rparr>"

text \<open>Step 6.\<close>

definition optimize_step :: "main_vars \<Rightarrow> main_vars" where
  "optimize_step v = v\<lparr>optimized_domains := optimize_domains (all_domains v) (all_suffixes v)\<rparr>"

text \<open>Step 7.\<close>

definition save_step :: "main_vars \<Rightarrow> main_vars" where
  "save_step v = v\<lparr>output_file := save_domains (optimized_domains v)\<rparr>"

definition main_steps :: "string list list \<Rightarrow> string list option \<Rightarrow> main_vars" where
  "main_steps loaded_files sample_file =
     (case parse_files loaded_files ([], []) of
        (all_d, all_s) \<Rightarrow>
          save_step (optimize_step (merge_step
            \<lparr>all_domains = all_d, all_suffixes = all_s,
             existing_domains = load_existing_domains sample_file,
             optimized_domains = [], output_file = []\<rparr>)))"


section \<open>Loops whose body may raise\<close>

text \<open>
  A \<^verbatim>\<open>for\<close> loop over a list, with the state passed along: an exception raised by the
  body leaves the loop at once; \<^verbatim>\<open>continue\<close> is the body returning the state.
\<close>

fun for_each :: "('a \<Rightarrow> 's \<Rightarrow> py_error + 's) \<Rightarrow> 'a list \<Rightarrow> 's \<Rightarrow> py_error + 's" where
  "for_each body [] st = Inr st"
| "for_each body (x # xs) st =
     (case body x st of Inl e \<Rightarrow> Inl e | Inr st' \<Rightarrow> for_each body xs st')"

text \<open>\<^verbatim>\<open>enumerate(xs, 1)\<close>\<close>

definition enumerate1 :: "'a list \<Rightarrow> (nat \<times> 'a) list" where
  "enumerate1 xs = zip [1 ..< Suc (length xs)] xs"

text \<open>\<^verbatim>\<open>sub in s\<close> on strings.\<close>

fun py_in :: "string \<Rightarrow> string \<Rightarrow> bool" where
  "py_in sub [] = (sub = [])"
| "py_in sub (x # xs) = (startswith (x # xs) sub \<or> py_in sub xs)"


section \<open>list\_to\_json\_converter.py\<close>

subsection \<open>parse\_list\_file\<close>

record rules_data =
  rd_domain :: "string list"
  rd_domain_keyword :: "string list"
  rd_domain_suffix :: "string list"
  rd_ip_cidr :: "string list"

definition empty_rules_data :: rules_data where
  "empty_rules_data = \<lparr>rd_domain = [], rd_domain_keyword = [], rd_domain_suffix = [], rd_ip_cidr = []\<rparr>"

text \<open>
  One turn of the loop over the lines of the file. Nothing catches an exception here: it
  leaves \<^verbatim>\<open>parse_list_file\<close>.
\<close>

definition parse_line_json :: "string \<Rightarrow> rules_data \<Rightarrow> py_error + rules_data" where
  "parse_line_json raw rd =
     (let line = strip raw in
      if line = [] \<or> startswith line ''#'' then Inr rd
      else if startswith line ''DOMAIN,'' then
        (case py_index (split1 line CHR '','') 1 of
           Inl e \<Rightarrow> Inl e
         | Inr v \<Rightarrow> Inr (rd\<lparr>rd_domain := rd_domain rd @ [v]\<rparr>))
      else if startswith line ''DOMAIN-KEYWORD,'' then
        (case py_index (split1 line CHR '','') 1 of
           Inl e \<Rightarrow> Inl e
         | Inr v \<Rightarrow> Inr (rd\<lparr>rd_domain_keyword := rd_domain_keyword rd @ [v]\<rparr>))
      else if startswith line ''DOMAIN-SUFFIX,'' then
        (case py_index (split1 line CHR '','') 1 of
           Inl e \<Rightarrow> Inl e
         | Inr v \<Rightarrow> Inr (rd\<lparr>rd_domain_suffix := rd_domain_suffix rd @ [v]\<rparr>))
      else if startswith line ''IP-CIDR,'' \<or> startswith line ''IP-CIDR6,'' then
        (case py_index (split line CHR '','') 1 of
           Inl e \<Rightarrow> Inl e
         | Inr v \<Rightarrow> Inr (rd\<lparr>rd_ip_cidr := rd_ip_cidr rd @ [v]\<rparr>))
      else Inr rd)"

text \<open>
  A JSON object whose values are arrays of strings is the list of its keys with their
  values; a rule document holds the array \<^verbatim>\<open>rules\<close> of such objects and the version.
\<close>

type_synonym json_rule = "(string \<times> string list) list"

record json_doc =
  doc_rules :: "json_rule list"
  doc_version :: int

text \<open>The array \<^verbatim>\<open>rules\<close>: one object for each list that is not empty.\<close>

definition final_rules :: "rules_data \<Rightarrow> json_rule list" where
  "final_rules rd =
     (if rd_domain rd \<noteq> [] then [[(''domain'', rd_domain rd)]] else [])
     @ (if rd_domain_keyword rd \<noteq> [] then [[(''domain_keyword'', rd_domain_keyword rd)]] else [])
     @ (if rd_domain_suffix rd \<noteq> [] then [[(''domain_suffix'', rd_domain_suffix rd)]] else [])
     @ (if rd_ip_cidr rd \<noteq> [] then [[(''ip_cidr'', rd_ip_cidr rd)]] else [])"

definition parse_list_file_json :: "string list \<Rightarrow> py_error + json_doc" where
  "parse_list_file_json file_lines =
     (case for_each parse_line_json file_lines empty_rules_data of
        Inl e \<Rightarrow> Inl e
      | Inr rd \<Rightarrow> Inr \<lparr>doc_rules = final_rules rd, doc_version = 2\<rparr>)"

subsection \<open>merge\_json\_files\<close>

text \<open>
  A file to merge either fails to load (the handler warns and goes on to the next file)
  or gives an object, with or without the key \<^verbatim>\<open>rules\<close>.
\<close>

datatype json_file = Unreadable | Data "json_rule list option"

text \<open>\<^verbatim>\<open>if key in rule: target.extend(rule[key])\<close>, for the four keys in turn.\<close>

definition merge_rule :: "json_rule \<Rightarrow> rules_data \<Rightarrow> rules_data" where
  "merge_rule rule md =
     (let md1 = (case map_of rule ''domain'' of
                   Some vs \<Rightarrow> md\<lparr>rd_domain := rd_domain md @ vs\<rparr> | None \<Rightarrow> md);
          md2 = (case map_of rule ''domain_keyword'' of
                   Some vs \<Rightarrow> md1\<lparr>rd_domain_keyword := rd_domain_keyword md1 @ vs\<rparr> | None \<Rightarrow> md1);
          md3 = (case map_of rule ''domain_suffix'' of
                   Some vs \<Rightarrow> md2\<lparr>rd_domain_suffix := rd_domain_suffix md2 @ vs\<rparr> | None \<Rightarrow> md2)
      in (case map_of rule ''ip_cidr'' of
            Some vs \<Rightarrow> md3\<lparr>rd_ip_cidr := rd_ip_cidr md3 @ vs\<rparr> | None \<Rightarrow> md3))"

definition merge_file :: "json_file \<Rightarrow> rules_data \<Rightarrow> rules_data" where
  "merge_file file md =
     (case file of
        Unreadable \<Rightarrow> md
      | Data None \<Rightarrow> md
      | Data (Some rs) \<Rightarrow> fold merge_rule rs md)"

text \<open>
  \<^verbatim>\<open>list(set(xs))\<close>: the members of \<open>xs\<close>, each once, in an order Python leaves open;
  \<^const>\<open>remdups\<close> gives one such order.
\<close>

definition list_of_set :: "string list \<Rightarrow> string list" where
  "list_of_set xs = remdups xs"

definition merged_data :: "json_file list \<Rightarrow> rules_data" where
  "merged_data json_files =
     (let md = fold merge_file json_files empty_rules_data
      in \<lparr>rd_domain = list_of_set (rd_domain md),
          rd_domain_keyword = list_of_set (rd_domain_keyword md),
          rd_domain_suffix = list_of_set (rd_domain_suffix md),
          rd_ip_cidr = list_of_set (rd_ip_cidr md)\<rparr>)"

text \<open>The document that \<^verbatim>\<open>merge_json_files\<close> writes.\<close>

definition merge_json_files :: "json_file list \<Rightarrow> int \<Rightarrow> json_doc" where
  "merge_json_files json_files version =
     \<lparr>doc_rules = final_rules (merged_data json_files), doc_version = version\<rparr>"


section \<open>list\_to\_json/list\_to\_json.py\<close>

text \<open>The three arrays of the result and the four counters of \<^verbatim>\<open>stats\<close>.\<close>

record l2j_state =
  l2j_domain :: "string list"
  l2j_domain_keyword :: "string list"
  l2j_domain_suffix :: "string list"
  stats_domain :: nat
  stats_domain_keyword :: nat
  stats_domain_suffix :: nat
  stats_ignored :: nat

definition l2j_init :: l2j_state where
  "l2j_init = \<lparr>l2j_domain = [], l2j_domain_keyword = [], l2j_domain_suffix = [],
     stats_domain = 0, stats_domain_keyword = 0, stats_domain_suffix = 0, stats_ignored = 0\<rparr>"

definition list_to_json_line :: "string \<Rightarrow> l2j_state \<Rightarrow> py_error + l2j_state" where
  "list_to_json_line raw st =
     (let line = strip raw in
      if line = [] then Inr st
      else
        (let parts = split line CHR '','' in
         if length parts < 2 then Inr st
         else
           (case py_index parts 0 of
              Inl e \<Rightarrow> Inl e
            | Inr p0 \<Rightarrow>
                (let rule_type = upper p0 in
                 case py_index parts 1 of
                   Inl e \<Rightarrow> Inl e
                 | Inr v \<Rightarrow>
                     if rule_type = ''DOMAIN'' then
                       Inr (st\<lparr>l2j_domain := l2j_domain st @ [v],
                               stats_domain := stats_domain st + 1\<rparr>)
                     else if rule_type = ''DOMAIN-KEYWORD'' then
                       Inr (st\<lparr>l2j_domain_keyword := l2j_domain_keyword st @ [v],
                               stats_domain_keyword := stats_domain_keyword st + 1\<rparr>)
                     else if rule_type = ''DOMAIN-SUFFIX'' then
                       Inr (st\<lparr>l2j_domain_suffix := l2j_domain_suffix st @ [v],
                               stats_domain_suffix := stats_domain_suffix st + 1\<rparr>)
                     else Inr (st\<lparr>stats_ignored := stats_ignored st + 1\<rparr>)))))"

text \<open>The loop over \<^verbatim>\<open>f.readlines()\<close>; the result is the state the file is written from.\<close>

definition list_to_json :: "string list \<Rightarrow> py_error + l2j_state" where
  "list_to_json file_lines = for_each list_to_json_line file_lines l2j_init"


section \<open>list\_to\_yaml\_converter.py\<close>

definition SUPPORTED_RULE_TYPES :: "string list" where
  "SUPPORTED_RULE_TYPES =
     [''DOMAIN-SUFFIX'', ''DOMAIN-KEYWORD'', ''IP-CIDR'', ''IP-CIDR6'', ''DOMAIN'',
      ''DOMAIN-SET'', ''GEOIP'', ''IP-ASN'']"

definition UNSUPPORTED_RULE_TYPES :: "string list" where
  "UNSUPPORTED_RULE_TYPES = [''USER-AGENT'', ''URL-REGEX'', ''PROCESS-NAME'']"

datatype meta_value = MText string | MInt int

record yaml_state =
  y_metadata :: "string \<Rightarrow> meta_value option"
  y_rules :: "string list"
  y_stats :: "string \<Rightarrow> nat option"
  y_skipped_rules :: "(nat \<times> string \<times> string) list"

definition yaml_init :: yaml_state where
  "yaml_init =
     \<lparr>y_metadata = [''NAME'' \<mapsto> MText [], ''AUTHOR'' \<mapsto> MText [], ''REPO'' \<mapsto> MText [],
                    ''UPDATED'' \<mapsto> MText [], ''DOMAIN-KEYWORD'' \<mapsto> MInt 0,
                    ''DOMAIN-SUFFIX'' \<mapsto> MInt 0, ''IP-CIDR'' \<mapsto> MInt 0, ''IP-CIDR6'' \<mapsto> MInt 0,
                    ''TOTAL'' \<mapsto> MInt 0],
      y_rules = [], y_stats = Map.empty, y_skipped_rules = []\<rparr>"

text \<open>The first loop over keys in a comment line: an exception is not caught.\<close>

definition meta_text :: "string \<Rightarrow> string \<Rightarrow> (string \<Rightarrow> meta_value option)
    \<Rightarrow> py_error + (string \<Rightarrow> meta_value option)" where
  "meta_text line key md =
     (if py_in (''# '' @ key @ '':'') line then
        (case py_index (split1 line CHR '':'') 1 of
           Inl e \<Rightarrow> Inl e
         | Inr v \<Rightarrow> Inr (md(key \<mapsto> MText (strip v))))
      else Inr md)"

text \<open>
  The second loop converts with \<^verbatim>\<open>int\<close> inside a \<^verbatim>\<open>try\<close> whose handler is \<^verbatim>\<open>pass\<close>: any
  exception leaves the entry as it was. The conversion itself is the parameter \<open>py_int\<close>,
  \<open>None\<close> where \<^verbatim>\<open>int\<close> raises.
\<close>

definition meta_count :: "(string \<Rightarrow> int option) \<Rightarrow> string \<Rightarrow> string
    \<Rightarrow> (string \<Rightarrow> meta_value option) \<Rightarrow> py_error + (string \<Rightarrow> meta_value option)" where
  "meta_count py_int line key md =
     (if py_in (''# '' @ key @ '':'') line then
        (case py_index (split1 line CHR '':'') 1 of
           Inl e \<Rightarrow> Inr md
         | Inr v \<Rightarrow> (case py_int (strip v) of None \<Rightarrow> Inr md | Some n \<Rightarrow> Inr (md(key \<mapsto> MInt n))))
      else Inr md)"

text \<open>The two loops over keys that a comment line goes through, one after the other.\<close>

definition parse_comment :: "(string \<Rightarrow> int option) \<Rightarrow> string \<Rightarrow> (string \<Rightarrow> meta_value option)
    \<Rightarrow> py_error + (string \<Rightarrow> meta_value option)" where
  "parse_comment py_int line md =
     (case for_each (meta_text line) [''NAME'', ''AUTHOR'', ''REPO'', ''UPDATED''] md of
        Inl e \<Rightarrow> Inl e
      | Inr md' \<Rightarrow>
          for_each (meta_count py_int line)
            [''DOMAIN-KEYWORD'', ''DOMAIN-SUFFIX'', ''IP-CIDR'', ''IP-CIDR6'', ''TOTAL''] md')"

text \<open>One turn of the loop over the numbered lines.\<close>

definition parse_line_yaml :: "(string \<Rightarrow> int option) \<Rightarrow> nat \<times> string \<Rightarrow> yaml_state
    \<Rightarrow> py_error + yaml_state" where
  "parse_line_yaml py_int numbered st =
     (case numbered of (line_num, raw) \<Rightarrow>
      (let line = strip raw in
       if startswith line ''#'' then
         (case parse_comment py_int line (y_metadata st) of
            Inl e \<Rightarrow> Inl e
          | Inr md \<Rightarrow> Inr (st\<lparr>y_metadata := md\<rparr>))
       else if line = [] then Inr st
       else
         (let parts = split line CHR '','' in
          if length parts < 2 then Inr st
          else
            (case py_index parts 0 of
               Inl e \<Rightarrow> Inl e
             | Inr p0 \<Rightarrow>
                 (case py_index parts 1 of
                    Inl e \<Rightarrow> Inl e
                  | Inr p1 \<Rightarrow>
                      (let rule_type = strip p0; rule_value = strip p1 in
                       if rule_type \<in> set UNSUPPORTED_RULE_TYPES then
                         Inr (st\<lparr>y_skipped_rules :=
                                   y_skipped_rules st @ [(line_num, rule_type, rule_value)]\<rparr>)
                       else if rule_type \<notin> set SUPPORTED_RULE_TYPES then Inr st
                       else
                         (let final_rule =
                                (if rule_type \<in> set [''IP-CIDR'', ''IP-CIDR6'']
                                 then rule_type @ '','' @ rule_value
                                 else rule_type @ '','' @ rule_value)
                          in Inr (st\<lparr>y_rules := y_rules st @ [final_rule],
                                     y_stats := (y_stats st)(rule_type \<mapsto>
                                        (case y_stats st rule_type of None \<Rightarrow> 0 | Some n \<Rightarrow> n) + 1)\<rparr>))))))))"

text \<open>
  The loop over the lines; \<^verbatim>\<open>parse_list_file\<close> splits the stripped content at line feeds
  and returns \<^verbatim>\<open>metadata\<close>, \<^verbatim>\<open>rules\<close> and \<^verbatim>\<open>stats\<close> (the skipped rules are only printed).
\<close>

definition parse_lines_yaml :: "(string \<Rightarrow> int option) \<Rightarrow> string list \<Rightarrow> py_error + yaml_state" where
  "parse_lines_yaml py_int file_lines =
     for_each (parse_line_yaml py_int) (enumerate1 file_lines) yaml_init"

definition yaml_result :: "yaml_state
    \<Rightarrow> (string \<Rightarrow> meta_value option) \<times> string list \<times> (string \<Rightarrow> nat option)" where
  "yaml_result st = (y_metadata st, y_rules st, y_stats st)"

definition parse_list_file_yaml :: "(string \<Rightarrow> int option) \<Rightarrow> string
    \<Rightarrow> py_error + (string \<Rightarrow> meta_value option) \<times> string list \<times> (string \<Rightarrow> nat option)" where
  "parse_list_file_yaml py_int content =
     (case parse_lines_yaml py_int (split (strip content) CHR 0x0A) of
        Inl e \<Rightarrow> Inl e
      | Inr st \<Rightarrow> Inr (yaml_result st))"


section \<open>Notions used in the statements\<close>

text \<open>The values a rule object, and a file to merge, hold under a key.\<close>

definition rule_values :: "string \<Rightarrow> json_rule \<Rightarrow> string list" where
  "rule_values key rule = (case map_of rule key of Some vs \<Rightarrow> vs | None \<Rightarrow> [])"

definition file_values :: "string \<Rightarrow> json_file \<Rightarrow> string list" where
  "file_values key file =
     (case file of
        Unreadable \<Rightarrow> []
      | Data None \<Rightarrow> []
      | Data (Some rs) \<Rightarrow> concat (map (rule_values key) rs))"


text \<open>The four lists of a \<^typ>\<open>rules_data\<close> as sets: what is in them, whatever the order.\<close>

definition partitions :: "rules_data \<Rightarrow> string set \<times> string set \<times> string set \<times> string set" where
  "partitions rd =
     (set (rd_domain rd), set (rd_domain_keyword rd), set (rd_domain_suffix rd), set (rd_ip_cidr rd))"


section \<open>Properties\<close>

subsection \<open>Strings\<close>

lemma endswith_iff: "endswith s p \<longleftrightarrow> (\<exists>q. s = q @ p)"
proof
  assume "endswith s p"
  then have "s = take (length s - length p) s @ p"
    by (metis append_take_drop_id endswith_def)
  then show "\<exists>q. s = q @ p" ..
next
  assume "\<exists>q. s = q @ p"
  then show "endswith s p"
    by (auto simp: endswith_def)
qed

subsection \<open>Sets\<close>

lemma set_set_add: "set (set_add x s) = insert x (set s)"
  by (auto simp: set_add_def)

lemma distinct_set_add: "distinct s \<Longrightarrow> distinct (set_add x s)"
  by (simp add: set_add_def)

lemma set_set_update: "set (set_update s t) = set s \<union> set t"
  unfolding set_update_def by (induction t arbitrary: s) (auto simp: set_set_add)

lemma distinct_set_update: "distinct s \<Longrightarrow> distinct (set_update s t)"
  unfolding set_update_def by (induction t arbitrary: s) (auto simp: distinct_set_add)

lemma fold_set_add_fresh:
  "distinct xs \<Longrightarrow> set xs \<inter> set opt = {} \<Longrightarrow> fold set_add xs opt = opt @ xs"
  by (induction xs arbitrary: opt) (auto simp: set_add_def)

subsection \<open>The suffix-covering reduction\<close>

lemma is_subdomain_of_iff:
  "is_subdomain_of d s \<longleftrightarrow> d \<noteq> s \<and> (\<exists>q. d = q @ ''.'' @ s)"
  by (auto simp: is_subdomain_of_def endswith_iff)

lemma fst_covered_loop:
  "fst (covered_loop d ss rc) \<longleftrightarrow> (\<exists>s \<in> set ss. is_subdomain_of d s)"
  by (induction ss) auto

text \<open>
  The two loops compute a filter: the domains no suffix covers, added one by one to the
  result set.
\<close>

lemma optimize_loop_fold:
  "fst (optimize_loop ds ss (opt, rc)) =
     fold set_add (filter (\<lambda>d. \<not> (\<exists>s \<in> set ss. is_subdomain_of d s)) ds) opt"
proof (induction ds arbitrary: opt rc)
  case Nil
  then show ?case by simp
next
  case (Cons d ds)
  obtain b rc' where c: "covered_loop d ss rc = (b, rc')"
    by (cases "covered_loop d ss rc")
  then have b: "b \<longleftrightarrow> (\<exists>s \<in> set ss. is_subdomain_of d s)"
    using fst_covered_loop [of d ss rc] by simp
  show ?case
    using Cons.IH c b by simp
qed

lemma set_fold_set_add: "set (fold set_add xs opt) = set opt \<union> set xs"
  using set_set_update [of opt xs] by (simp add: set_update_def)

lemma distinct_fold_set_add: "distinct opt \<Longrightarrow> distinct (fold set_add xs opt)"
  using distinct_set_update [of opt xs] by (simp add: set_update_def)

lemma set_optimize_domains:
  "set (optimize_domains ds ss) = {d \<in> set ds. \<not> (\<exists>s \<in> set ss. is_subdomain_of d s)}"
  by (auto simp: optimize_domains_def optimize_loop_fold set_fold_set_add)

lemma distinct_optimize_domains: "distinct (optimize_domains ds ss)"
  by (simp add: optimize_domains_def optimize_loop_fold distinct_fold_set_add)

lemma optimize_domains_fixed:
  assumes "distinct xs" and "\<forall>d \<in> set xs. \<not> (\<exists>s \<in> set ss. is_subdomain_of d s)"
  shows "optimize_domains xs ss = xs"
proof -
  have "filter (\<lambda>d. \<not> (\<exists>s \<in> set ss. is_subdomain_of d s)) xs = xs"
    using assms(2) by (simp add: filter_id_conv)
  then show ?thesis
    using assms(1) by (simp add: optimize_domains_def optimize_loop_fold fold_set_add_fresh)
qed

text \<open>
  Claim C1. For every domain \<open>d\<close> and suffix \<open>s\<close>, \<^verbatim>\<open>is_subdomain_of(d, s)\<close> is true if and
  only if \<open>d\<close> differs from \<open>s\<close> and \<open>d\<close> ends with a dot followed by \<open>s\<close>. It is true of
  \<^verbatim>\<open>mail.example.com\<close> under \<^verbatim>\<open>example.com\<close>, and false of \<^verbatim>\<open>example.com\<close> and of
  \<^verbatim>\<open>notexample.com\<close> under \<^verbatim>\<open>example.com\<close>.
\<close>

theorem covers_correct:
  "(is_subdomain_of d s \<longleftrightarrow> d \<noteq> s \<and> (\<exists>q. d = q @ ''.'' @ s))
   \<and> is_subdomain_of ''mail.example.com'' ''example.com''
   \<and> \<not> is_subdomain_of ''example.com'' ''example.com''
   \<and> \<not> is_subdomain_of ''notexample.com'' ''example.com''"
proof -
  have a: "is_subdomain_of ''mail.example.com'' ''example.com''"
    by code_simp
  have b: "\<not> is_subdomain_of ''example.com'' ''example.com''"
    by code_simp
  have c: "\<not> is_subdomain_of ''notexample.com'' ''example.com''"
    by code_simp
  show ?thesis
    using a b c is_subdomain_of_iff [of d s] by blast
qed

theorem covers_correct_witness:
  "is_subdomain_of ''a.example.com'' ''example.com''
   \<and> ''a.example.com'' \<noteq> ''example.com''
   \<and> (\<exists>q. ''a.example.com'' = q @ ''.'' @ ''example.com'')"
proof -
  have h: "is_subdomain_of ''a.example.com'' ''example.com''"
    by code_simp
  show ?thesis
    using h covers_correct [of "''a.example.com''" "''example.com''"] by blast
qed

text \<open>
  Claim C2. \<^verbatim>\<open>optimize_domains\<close> keeps a domain of its first argument exactly when no
  suffix of its second argument covers it, and drops every domain that some suffix
  covers. From the lines \<^verbatim>\<open>DOMAIN,mail.example.com\<close>, \<^verbatim>\<open>DOMAIN,example.com\<close> and
  \<^verbatim>\<open>DOMAIN-SUFFIX,example.com\<close> the optimized set of \<^verbatim>\<open>main\<close> holds \<^verbatim>\<open>example.com\<close>, which
  equals the suffix and is not covered, and \<^verbatim>\<open>mail.example.com\<close> is removed.
\<close>

theorem optimize_domains_retains:
  "(d \<in> set (optimize_domains D S) \<longleftrightarrow> d \<in> set D \<and> (\<forall>s \<in> set S. \<not> is_subdomain_of d s))
   \<and> optimized_domains (main_steps
        [[''DOMAIN,mail.example.com\<newline>'', ''DOMAIN,example.com\<newline>'',
          ''DOMAIN-SUFFIX,example.com\<newline>'']] None) = [''example.com'']"
proof -
  have e: "optimized_domains (main_steps
        [[''DOMAIN,mail.example.com\<newline>'', ''DOMAIN,example.com\<newline>'',
          ''DOMAIN-SUFFIX,example.com\<newline>'']] None) = [''example.com'']"
    by code_simp
  have "d \<in> set (optimize_domains D S) \<longleftrightarrow> d \<in> set D \<and> (\<forall>s \<in> set S. \<not> is_subdomain_of d s)"
    by (simp add: set_optimize_domains)
  then show ?thesis
    using e by simp
qed

theorem optimize_domains_retains_witness:
  "''example.com'' \<in> set (optimize_domains [''mail.example.com'', ''example.com''] [''example.com''])
   \<and> \<not> is_subdomain_of ''example.com'' ''example.com''
   \<and> is_subdomain_of ''mail.example.com'' ''example.com''
   \<and> ''mail.example.com'' \<notin> set (optimize_domains [''mail.example.com'', ''example.com''] [''example.com''])"
proof -
  have k: "\<not> is_subdomain_of ''example.com'' ''example.com''"
    by code_simp
  have m: "is_subdomain_of ''mail.example.com'' ''example.com''"
    by code_simp
  have a: "''example.com'' \<in> set (optimize_domains [''mail.example.com'', ''example.com''] [''example.com''])"
    using k
      optimize_domains_retains [of "''example.com''" "[''mail.example.com'', ''example.com'']" "[''example.com'']"]
    by simp
  have b: "''mail.example.com'' \<notin> set (optimize_domains [''mail.example.com'', ''example.com''] [''example.com''])"
    using m
      optimize_domains_retains [of "''mail.example.com''" "[''mail.example.com'', ''example.com'']" "[''example.com'']"]
    by simp
  show ?thesis
    using k m a b by blast
qed

text \<open>
  Claim C3, as the code has it. \<^verbatim>\<open>main\<close> never changes the set \<^verbatim>\<open>all_suffixes\<close>, but step 5
  adds the suffixes to the set of domains, and the file written holds the optimized set of
  domains only. So the output holds the domains, the existing domains and the suffixes that
  no suffix covers: a suffix is written exactly when no other suffix covers it, and a
  \<^verbatim>\<open>DOMAIN-SUFFIX\<close> value that is a proper subdomain of another suffix is removed by the
  reduction. (This tool reads no \<^verbatim>\<open>DOMAIN-KEYWORD\<close> or \<^verbatim>\<open>IP-CIDR\<close> line, so that it holds
  no record of these types.)
\<close>

theorem suffix_kept_iff_uncovered:
  "all_suffixes (main_steps fs sample) = snd (parse_files fs ([], []))
   \<and> set (optimized_domains (main_steps fs sample)) =
       {d \<in> set (fst (parse_files fs ([], []))) \<union> set (load_existing_domains sample)
              \<union> set (snd (parse_files fs ([], []))).
          \<not> (\<exists>t \<in> set (snd (parse_files fs ([], []))). is_subdomain_of d t)}
   \<and> (s \<in> set (all_suffixes (main_steps fs sample)) \<longrightarrow>
        (s \<in> set (optimized_domains (main_steps fs sample)) \<longleftrightarrow>
           \<not> (\<exists>t \<in> set (all_suffixes (main_steps fs sample)). is_subdomain_of s t)))
   \<and> output_file (main_steps fs sample) = save_domains (optimized_domains (main_steps fs sample))"
proof -
  obtain A S where p: "parse_files fs ([], []) = (A, S)"
    by (cases "parse_files fs ([], [])") auto
  have a: "all_suffixes (main_steps fs sample) = S"
    by (simp add: main_steps_def p save_step_def optimize_step_def merge_step_def)
  have b: "optimized_domains (main_steps fs sample)
      = optimize_domains (set_update (set_update A (load_existing_domains sample)) S) S"
    by (simp add: main_steps_def p save_step_def optimize_step_def merge_step_def)
  have c: "set (optimized_domains (main_steps fs sample)) =
       {d \<in> set A \<union> set (load_existing_domains sample) \<union> set S.
          \<not> (\<exists>t \<in> set S. is_subdomain_of d t)}"
    unfolding b by (simp add: set_optimize_domains set_set_update)
  have d: "output_file (main_steps fs sample) = save_domains (optimized_domains (main_steps fs sample))"
    by (simp add: main_steps_def p save_step_def optimize_step_def merge_step_def)
  show ?thesis
    using a c d by (simp add: p)
qed

theorem suffix_kept_iff_uncovered_witness:
  "''example.com'' \<in> set (all_suffixes (main_steps
      [[''DOMAIN-SUFFIX,a.example.com\<newline>'', ''DOMAIN-SUFFIX,example.com\<newline>'']] None))
   \<and> ''example.com'' \<in> set (optimized_domains (main_steps
      [[''DOMAIN-SUFFIX,a.example.com\<newline>'', ''DOMAIN-SUFFIX,example.com\<newline>'']] None))"
proof -
  have m: "''example.com'' \<in> set (all_suffixes (main_steps
      [[''DOMAIN-SUFFIX,a.example.com\<newline>'', ''DOMAIN-SUFFIX,example.com\<newline>'']] None))"
    by code_simp
  have k: "\<not> (\<exists>t \<in> set (all_suffixes (main_steps
      [[''DOMAIN-SUFFIX,a.example.com\<newline>'', ''DOMAIN-SUFFIX,example.com\<newline>'']] None)).
        is_subdomain_of ''example.com'' t)"
    by code_simp
  show ?thesis
    using m k suffix_kept_iff_uncovered [of
        "[[''DOMAIN-SUFFIX,a.example.com\<newline>'', ''DOMAIN-SUFFIX,example.com\<newline>'']]" None "''example.com''"]
    by blast
qed

text \<open>
  From the lines \<^verbatim>\<open>DOMAIN-SUFFIX,a.example.com\<close> and \<^verbatim>\<open>DOMAIN-SUFFIX,example.com\<close> alone the
  file written is the single line \<^verbatim>\<open>example.com\<close>: the suffix record \<^verbatim>\<open>a.example.com\<close> has
  been removed by the reduction.
\<close>

theorem covered_suffix_removed:
  "''a.example.com'' \<in> set (snd (parse_list_file
      [''DOMAIN-SUFFIX,a.example.com\<newline>'', ''DOMAIN-SUFFIX,example.com\<newline>'']))
   \<and> optimized_domains (main_steps
      [[''DOMAIN-SUFFIX,a.example.com\<newline>'', ''DOMAIN-SUFFIX,example.com\<newline>'']] None)
        = [''example.com'']
   \<and> output_file (main_steps
      [[''DOMAIN-SUFFIX,a.example.com\<newline>'', ''DOMAIN-SUFFIX,example.com\<newline>'']] None)
        = ''example.com\<newline>''"
  by code_simp

text \<open>
  Claim C4. Optimization is idempotent: optimizing the result again, with the same
  suffixes, gives the same result, in whatever order the result set is iterated.
\<close>

theorem optimize_domains_idempotent:
  "optimize_domains (optimize_domains D S) S = optimize_domains D S
   \<and> (set X = set (optimize_domains D S)
        \<longrightarrow> set (optimize_domains X S) = set (optimize_domains D S))"
proof -
  have "optimize_domains (optimize_domains D S) S = optimize_domains D S"
    by (rule optimize_domains_fixed) (auto simp: distinct_optimize_domains set_optimize_domains)
  moreover have "set X = set (optimize_domains D S)
        \<longrightarrow> set (optimize_domains X S) = set (optimize_domains D S)"
    by (auto simp: set_optimize_domains)
  ultimately show ?thesis
    by simp
qed

theorem optimize_domains_idempotent_witness:
  "set [''b.org'', ''example.com'']
     = set (optimize_domains [''mail.example.com'', ''example.com'', ''b.org''] [''example.com''])
   \<and> set (optimize_domains [''b.org'', ''example.com''] [''example.com''])
     = set (optimize_domains [''mail.example.com'', ''example.com'', ''b.org''] [''example.com''])"
proof -
  have h: "optimize_domains [''mail.example.com'', ''example.com'', ''b.org''] [''example.com'']
             = [''example.com'', ''b.org'']"
    by code_simp
  then have k: "set [''b.org'', ''example.com'']
     = set (optimize_domains [''mail.example.com'', ''example.com'', ''b.org''] [''example.com''])"
    by (simp add: insert_commute)
  show ?thesis
    using k optimize_domains_idempotent
      [of "[''mail.example.com'', ''example.com'', ''b.org'']" "[''example.com'']"
          "[''b.org'', ''example.com'']"]
    by blast
qed

text \<open>
  Claim C10. For suffix sets \<open>S \<subseteq> S'\<close>, \<open>optimize(D, S') \<subseteq> optimize(D, S) \<subseteq> D\<close>: the
  optimizer only removes domains, and more suffixes can only remove more.
\<close>

theorem optimize_domains_monotone:
  "set S \<subseteq> set S' \<Longrightarrow>
     set (optimize_domains D S') \<subseteq> set (optimize_domains D S)
     \<and> set (optimize_domains D S) \<subseteq> set D"
  by (auto simp: set_optimize_domains)

theorem optimize_domains_monotone_witness:
  "set [''example.com''] \<subseteq> set [''example.com'', ''b.org'']
   \<and> set (optimize_domains [''mail.example.com'', ''x.b.org'', ''c.net''] [''example.com'', ''b.org''])
       \<subseteq> set (optimize_domains [''mail.example.com'', ''x.b.org'', ''c.net''] [''example.com''])
   \<and> set (optimize_domains [''mail.example.com'', ''x.b.org'', ''c.net''] [''example.com''])
       \<subseteq> set [''mail.example.com'', ''x.b.org'', ''c.net'']"
proof -
  have h: "set [''example.com''] \<subseteq> set [''example.com'', ''b.org'']"
    by simp
  show ?thesis
    using h optimize_domains_monotone [OF h, of "[''mail.example.com'', ''x.b.org'', ''c.net'']"]
    by blast
qed

subsection \<open>The flat text file\<close>

lemma split_acc_line:
  "c \<notin> set d \<Longrightarrow> split_acc c acc (d @ c # rest) = (rev acc @ d) # split_acc c [] rest"
  by (induction d arbitrary: acc) auto

lemma split_lines_concat:
  "\<forall>d \<in> set xs. c \<notin> set d \<Longrightarrow> split (concat (map (\<lambda>d. d @ [c]) xs)) c = xs @ [[]]"
  by (induction xs) (auto simp: split_def split_acc_line)

lemma split_save_domains:
  "\<forall>d \<in> set ds. CHR 0x0A \<notin> set d \<Longrightarrow>
     split (save_domains ds) CHR 0x0A = sorted_domains ds @ [[]]"
  unfolding save_domains_def
  by (rule split_lines_concat) (simp add: sorted_domains_def)

text \<open>
  Claim C8. \<^verbatim>\<open>save_domains\<close> writes the domains it is given, each once, in ascending
  order of their lower-case forms, one on each line, every line ended by a line feed, and
  nothing else: cut at the line feeds, the file is the sorted list of domains followed by
  the empty rest after the last line feed (stated for domains that hold no line feed
  themselves). Given \<^verbatim>\<open>Zeta.com\<close> and \<^verbatim>\<open>alpha.com\<close>, in either order, it writes
  \<^verbatim>\<open>alpha.com\<close> before \<^verbatim>\<open>Zeta.com\<close>.
\<close>

theorem save_domains_sorted_lines:
  "sorted (map lower (sorted_domains ds))
   \<and> mset (sorted_domains ds) = mset ds
   \<and> ((\<forall>d \<in> set ds. CHR 0x0A \<notin> set d) \<longrightarrow>
        split (save_domains ds) CHR 0x0A = sorted_domains ds @ [[]])
   \<and> save_domains [''Zeta.com'', ''alpha.com''] = ''alpha.com\<newline>Zeta.com\<newline>''
   \<and> save_domains [''alpha.com'', ''Zeta.com''] = ''alpha.com\<newline>Zeta.com\<newline>''"
proof -
  have a: "sorted (map lower (sorted_domains ds))"
    by (simp add: sorted_domains_def)
  have b: "mset (sorted_domains ds) = mset ds"
    by (simp add: sorted_domains_def)
  have c: "(\<forall>d \<in> set ds. CHR 0x0A \<notin> set d) \<longrightarrow>
        split (save_domains ds) CHR 0x0A = sorted_domains ds @ [[]]"
    using split_save_domains by blast
  have d: "save_domains [''Zeta.com'', ''alpha.com''] = ''alpha.com\<newline>Zeta.com\<newline>''"
    by code_simp
  have e: "save_domains [''alpha.com'', ''Zeta.com''] = ''alpha.com\<newline>Zeta.com\<newline>''"
    by code_simp
  show ?thesis
    using a b c d e by blast
qed

theorem save_domains_sorted_lines_witness:
  "CHR 0x0A \<notin> set ''Zeta.com'' \<and> CHR 0x0A \<notin> set ''alpha.com''
   \<and> split (save_domains [''Zeta.com'', ''alpha.com'']) CHR 0x0A = [''alpha.com'', ''Zeta.com'', []]"
proof -
  have h: "\<forall>d \<in> set [''Zeta.com'', ''alpha.com'']. CHR 0x0A \<notin> set d"
    by simp
  have s: "sorted_domains [''Zeta.com'', ''alpha.com''] = [''alpha.com'', ''Zeta.com'']"
    by code_simp
  have "split (save_domains [''Zeta.com'', ''alpha.com'']) CHR 0x0A
          = sorted_domains [''Zeta.com'', ''alpha.com''] @ [[]]"
    using h save_domains_sorted_lines [of "[''Zeta.com'', ''alpha.com'']"] by blast
  then show ?thesis
    using s by simp
qed

subsection \<open>Aggregation\<close>

lemma set_parse_files:
  "set (fst (parse_files fs (d, s))) = set d \<union> (\<Union>f \<in> set fs. set (fst (parse_list_file f)))"
  "set (snd (parse_files fs (d, s))) = set s \<union> (\<Union>f \<in> set fs. set (snd (parse_list_file f)))"
  by (induction fs arbitrary: d s; auto simp: set_set_update split: prod.splits)+

lemma distinct_parse_files:
  "distinct d \<Longrightarrow> distinct (fst (parse_files fs (d, s)))"
  "distinct s \<Longrightarrow> distinct (snd (parse_files fs (d, s)))"
  by (induction fs arbitrary: d s; auto simp: distinct_set_update split: prod.splits)+

lemma aggregate_domains:
  "set (fst (parse_files fs ([], []))) = (\<Union>f \<in> set fs. set (fst (parse_list_file f)))"
  using set_parse_files(1) [of fs "[]" "[]"] by simp

lemma aggregate_suffixes:
  "set (snd (parse_files fs ([], []))) = (\<Union>f \<in> set fs. set (snd (parse_list_file f)))"
  using set_parse_files(2) [of fs "[]" "[]"] by simp

lemma merge_rule_fields:
  "rd_domain (merge_rule r md) = rd_domain md @ rule_values ''domain'' r"
  "rd_domain_keyword (merge_rule r md) = rd_domain_keyword md @ rule_values ''domain_keyword'' r"
  "rd_domain_suffix (merge_rule r md) = rd_domain_suffix md @ rule_values ''domain_suffix'' r"
  "rd_ip_cidr (merge_rule r md) = rd_ip_cidr md @ rule_values ''ip_cidr'' r"
  by (simp_all add: merge_rule_def rule_values_def Let_def split: option.splits)

lemma fold_merge_rule_fields:
  "rd_domain (fold merge_rule rs md) = rd_domain md @ concat (map (rule_values ''domain'') rs)"
  "rd_domain_keyword (fold merge_rule rs md)
     = rd_domain_keyword md @ concat (map (rule_values ''domain_keyword'') rs)"
  "rd_domain_suffix (fold merge_rule rs md)
     = rd_domain_suffix md @ concat (map (rule_values ''domain_suffix'') rs)"
  "rd_ip_cidr (fold merge_rule rs md) = rd_ip_cidr md @ concat (map (rule_values ''ip_cidr'') rs)"
  by (induction rs arbitrary: md; simp add: merge_rule_fields)+

lemma merge_file_fields:
  "rd_domain (merge_file f md) = rd_domain md @ file_values ''domain'' f"
  "rd_domain_keyword (merge_file f md) = rd_domain_keyword md @ file_values ''domain_keyword'' f"
  "rd_domain_suffix (merge_file f md) = rd_domain_suffix md @ file_values ''domain_suffix'' f"
  "rd_ip_cidr (merge_file f md) = rd_ip_cidr md @ file_values ''ip_cidr'' f"
  by (simp_all add: merge_file_def file_values_def fold_merge_rule_fields
      split: json_file.splits option.splits)

lemma fold_merge_file_fields:
  "rd_domain (fold merge_file fs md) = rd_domain md @ concat (map (file_values ''domain'') fs)"
  "rd_domain_keyword (fold merge_file fs md)
     = rd_domain_keyword md @ concat (map (file_values ''domain_keyword'') fs)"
  "rd_domain_suffix (fold merge_file fs md)
     = rd_domain_suffix md @ concat (map (file_values ''domain_suffix'') fs)"
  "rd_ip_cidr (fold merge_file fs md) = rd_ip_cidr md @ concat (map (file_values ''ip_cidr'') fs)"
  by (induction fs arbitrary: md; simp add: merge_file_fields)+

text \<open>What \<^verbatim>\<open>merge_json_files\<close> collects is the union of what the files hold.\<close>

lemma partitions_merged_data:
  "partitions (merged_data fs) =
     (\<Union>f \<in> set fs. set (file_values ''domain'' f),
      \<Union>f \<in> set fs. set (file_values ''domain_keyword'' f),
      \<Union>f \<in> set fs. set (file_values ''domain_suffix'' f),
      \<Union>f \<in> set fs. set (file_values ''ip_cidr'' f))"
  by (simp add: partitions_def merged_data_def Let_def list_of_set_def fold_merge_file_fields
      empty_rules_data_def)

lemma distinct_merged_data:
  "distinct (rd_domain (merged_data fs))" "distinct (rd_domain_keyword (merged_data fs))"
  "distinct (rd_domain_suffix (merged_data fs))" "distinct (rd_ip_cidr (merged_data fs))"
  by (simp_all add: merged_data_def Let_def list_of_set_def)

text \<open>
  Claim C5. Aggregation is a union of sets. In \<^verbatim>\<open>main\<close> of the optimizer the set of domains
  and the set of suffixes collected from the files are the unions of the sets parsed from
  each file; the set of domains that step 5 hands to the optimizer is the union of these
  two and of the existing domains. The four lists \<^verbatim>\<open>merge_json_files\<close> collects are, read
  as sets, the unions of what the files hold under each key. Every such set holds a value
  once. So two sources give the same whatever their order, a source taken twice adds
  nothing, and two sources that each give \<^verbatim>\<open>DOMAIN,foo.com\<close> leave exactly one \<^verbatim>\<open>foo.com\<close>
  among the domains.
\<close>

theorem aggregate_set_union:
  "set (fst (parse_files fs ([], []))) = (\<Union>f \<in> set fs. set (fst (parse_list_file f)))
   \<and> set (snd (parse_files fs ([], []))) = (\<Union>f \<in> set fs. set (snd (parse_list_file f)))
   \<and> set (all_domains (main_steps fs sample)) =
        (\<Union>f \<in> set fs. set (fst (parse_list_file f))) \<union> set (load_existing_domains sample)
          \<union> (\<Union>f \<in> set fs. set (snd (parse_list_file f)))
   \<and> distinct (fst (parse_files fs ([], []))) \<and> distinct (snd (parse_files fs ([], [])))
   \<and> distinct (all_domains (main_steps fs sample))
   \<and> partitions (merged_data js) =
        (\<Union>f \<in> set js. set (file_values ''domain'' f),
         \<Union>f \<in> set js. set (file_values ''domain_keyword'' f),
         \<Union>f \<in> set js. set (file_values ''domain_suffix'' f),
         \<Union>f \<in> set js. set (file_values ''ip_cidr'' f))
   \<and> distinct (rd_domain (merged_data js)) \<and> distinct (rd_domain_keyword (merged_data js))
   \<and> distinct (rd_domain_suffix (merged_data js)) \<and> distinct (rd_ip_cidr (merged_data js))
   \<and> set (fst (parse_files [A, B] ([], []))) = set (fst (parse_files [B, A] ([], [])))
   \<and> set (snd (parse_files [A, B] ([], []))) = set (snd (parse_files [B, A] ([], [])))
   \<and> set (fst (parse_files [A, A] ([], []))) = set (fst (parse_files [A] ([], [])))
   \<and> set (snd (parse_files [A, A] ([], []))) = set (snd (parse_files [A] ([], [])))
   \<and> partitions (merged_data [F, G]) = partitions (merged_data [G, F])
   \<and> partitions (merged_data [F, F]) = partitions (merged_data [F])
   \<and> parse_files [[''DOMAIN,foo.com\<newline>''], [''DOMAIN,foo.com\<newline>'']] ([], []) = ([''foo.com''], [])
   \<and> merge_json_files [Data (Some [[(''domain'', [''foo.com''])]]),
                         Data (Some [[(''domain'', [''foo.com''])]])] 2
        = \<lparr>doc_rules = [[(''domain'', [''foo.com''])]], doc_version = 2\<rparr>"
proof -
  obtain D S where p: "parse_files fs ([], []) = (D, S)"
    by (cases "parse_files fs ([], [])") auto
  have dD: "distinct D" and dS: "distinct S"
    using distinct_parse_files [of "[]" fs "[]"] by (simp_all add: p)
  have m: "all_domains (main_steps fs sample)
      = set_update (set_update D (load_existing_domains sample)) S"
    by (simp add: main_steps_def p save_step_def optimize_step_def merge_step_def)
  have u1: "set (fst (parse_files fs ([], []))) = (\<Union>f \<in> set fs. set (fst (parse_list_file f)))"
    by (rule aggregate_domains)
  have u2: "set (snd (parse_files fs ([], []))) = (\<Union>f \<in> set fs. set (snd (parse_list_file f)))"
    by (rule aggregate_suffixes)
  have u3: "set (all_domains (main_steps fs sample)) =
        (\<Union>f \<in> set fs. set (fst (parse_list_file f))) \<union> set (load_existing_domains sample)
          \<union> (\<Union>f \<in> set fs. set (snd (parse_list_file f)))"
    using u1 u2 unfolding m by (simp add: set_set_update p)
  have u4: "distinct (all_domains (main_steps fs sample))"
    unfolding m using dD by (simp add: distinct_set_update)
  have a: "set (fst (parse_files [A, B] ([], []))) = set (fst (parse_files [B, A] ([], [])))"
    unfolding aggregate_domains by (simp add: Un_commute)
  have b: "set (snd (parse_files [A, B] ([], []))) = set (snd (parse_files [B, A] ([], [])))"
    unfolding aggregate_suffixes by (simp add: Un_commute)
  have c: "set (fst (parse_files [A, A] ([], []))) = set (fst (parse_files [A] ([], [])))"
    unfolding aggregate_domains by simp
  have d: "set (snd (parse_files [A, A] ([], []))) = set (snd (parse_files [A] ([], [])))"
    unfolding aggregate_suffixes by simp
  have e: "distinct (fst (parse_files fs ([], [])))" "distinct (snd (parse_files fs ([], [])))"
    by (simp_all add: distinct_parse_files)
  have f: "partitions (merged_data [F, G]) = partitions (merged_data [G, F])"
    by (auto simp: partitions_merged_data)
  have g: "partitions (merged_data [F, F]) = partitions (merged_data [F])"
    by (auto simp: partitions_merged_data)
  have h: "parse_files [[''DOMAIN,foo.com\<newline>''], [''DOMAIN,foo.com\<newline>'']] ([], []) = ([''foo.com''], [])"
    by code_simp
  have i: "merge_json_files [Data (Some [[(''domain'', [''foo.com''])]]),
                         Data (Some [[(''domain'', [''foo.com''])]])] 2
        = \<lparr>doc_rules = [[(''domain'', [''foo.com''])]], doc_version = 2\<rparr>"
    by code_simp
  show ?thesis
    using u1 u2 u3 u4 a b c d e f g h i distinct_merged_data [of js] partitions_merged_data [of js]
    by blast
qed


subsection \<open>Lines that are not rules\<close>



lemma length_split_acc:
  "length (split_acc c acc s) = Suc (length (filter (\<lambda>x. x = c) s))"
  by (induction s arbitrary: acc) auto

lemma py_index_Inr: "i < length xs \<Longrightarrow> py_index xs i = Inr (xs ! i)"
  by (simp add: py_index_def)



























subsection \<open>What the parsers take for a rule\<close>

text \<open>
  Claim C6. The parsers of the optimizer and of the two converters compare the type of a
  line as it is written: the line \<^verbatim>\<open>domain,foo.com\<close> gives no record, where
  \<^verbatim>\<open>DOMAIN,foo.com\<close> gives the domain \<^verbatim>\<open>foo.com\<close>. \<^verbatim>\<open>list_to_json\<close>, which puts the type in
  upper case first, gives the same for both lines.
\<close>

theorem type_token_case_sensitive:
  "parse_list_file [''domain,foo.com\<newline>''] = ([], [])
   \<and> parse_list_file [''DOMAIN,foo.com\<newline>''] = ([''foo.com''], [])
   \<and> (case parse_list_file_yaml (\<lambda>s. None) ''domain,foo.com\<newline>'' of
         Inl e \<Rightarrow> None | Inr (metadata, rules, stats) \<Rightarrow> Some rules) = Some []
   \<and> (case parse_list_file_yaml (\<lambda>s. None) ''DOMAIN,foo.com\<newline>'' of
         Inl e \<Rightarrow> None | Inr (metadata, rules, stats) \<Rightarrow> Some rules) = Some [''DOMAIN,foo.com'']
   \<and> parse_list_file_json [''domain,foo.com\<newline>''] = Inr \<lparr>doc_rules = [], doc_version = 2\<rparr>
   \<and> parse_list_file_json [''DOMAIN,foo.com\<newline>'']
        = Inr \<lparr>doc_rules = [[(''domain'', [''foo.com''])]], doc_version = 2\<rparr>
   \<and> list_to_json [''domain,foo.com\<newline>''] = list_to_json [''DOMAIN,foo.com\<newline>'']
   \<and> list_to_json [''DOMAIN,foo.com\<newline>'']
        = Inr (l2j_init\<lparr>l2j_domain := [''foo.com''], stats_domain := 1\<rparr>)"
  by code_simp

text \<open>
  Claim C7. \<^verbatim>\<open>parse_list_file\<close> of the JSON converter takes what follows the first comma as
  it is: the line \<^verbatim>\<open>DOMAIN,\<close> gives a domain that is the empty string, and the blank after
  the comma of \<^verbatim>\<open>DOMAIN, foo.com\<close> stays in the value. \<^verbatim>\<open>parse_list_file\<close> of the optimizer
  strips the value and drops the line when nothing is left.
\<close>

theorem empty_value_kept:
  "parse_list_file_json [''DOMAIN,\<newline>'']
     = Inr \<lparr>doc_rules = [[(''domain'', [[]])]], doc_version = 2\<rparr>
   \<and> parse_list_file_json [''DOMAIN, foo.com \<newline>'']
     = Inr \<lparr>doc_rules = [[(''domain'', ['' foo.com''])]], doc_version = 2\<rparr>
   \<and> parse_list_file [''DOMAIN,\<newline>''] = ([], [])
   \<and> parse_list_file [''DOMAIN,  \<newline>''] = ([], [])
   \<and> parse_list_file [''DOMAIN, foo.com \<newline>''] = ([''foo.com''], [])"
  by code_simp

end
